theory Spec2Isabelle
  imports Main "HOL-Library.Word"
begin

unbundle bit_operations_syntax

section \<open>The CG14 frame buffer (hw/sparc/cg14.c): data model\<close>

text \<open>
  C integers are words of their width: \<open>uint8_t\<close>, \<open>uint16_t\<close>, \<open>uint32_t\<close> and
  \<open>uint64_t\<close> are 8, 16, 32 and 64 bit words; \<open>int\<close> is a 32 bit word that is read
  with \<open>sint\<close> and compared with \<open><s\<close> where the C comparison is signed. Signed
  overflow wraps around. The diagnostic \<open>printf\<close> calls of the source (\<open>DPRINTF\<close>,
  \<open>CG14_INFO\<close>, \<open>CG14_ERROR\<close>) change no state and are left out.
\<close>

type_synonym u8 = "8 word"
type_synonym u16 = "16 word"
type_synonym u32 = "32 word"
type_synonym u64 = "64 word"
type_synonym c_int = "32 word"

text \<open>Reading or writing outside the video memory buffer is undefined in C; the
  model stops with an error there.\<close>

datatype error = OutOfBounds

text \<open>\<open>struct ADV7152_state\<close>.\<close>

record ADV7152_state =
  mode :: u8
  address :: u8
  rgb_seq :: c_int

text \<open>The anonymous structs \<open>ctrl\<close> and \<open>timing\<close> of \<open>CG14State\<close>.\<close>

record ctrl_regs =
  mcr :: u8
  ppr :: u8

record timing_regs =
  hblank_start :: u16
  hblank_clear :: u16
  vblank_start :: u16
  vblank_clear :: u16

text \<open>
  The host console \<open>DisplayState *ds\<close> belongs to QEMU, not to the device. The model
  keeps what the device asks of it and what it does to it: the pixel depth, the line size
  and the channel order the surface reports, and, each in call order, the geometry of every
  \<open>qemu_console_resize\<close>, every 32 bit store into the surface data (byte offset from
  \<open>ds_get_data\<close>, value stored) and the rectangle of every \<open>dpy_update\<close>.
\<close>

record DisplayState =
  ds_bits_per_pixel :: c_int
  ds_linesize :: c_int
  ds_surface_bgr :: c_int
  ds_resizes :: "(c_int \<times> c_int) list"
  ds_stores :: "(int \<times> u32) list"
  ds_updates :: "(c_int \<times> c_int \<times> c_int \<times> c_int) list"

text \<open>
  \<open>CG14State\<close>. The video memory \<open>vram\<close> is the byte buffer itself; the tables
  \<open>xlut[256]\<close>, \<open>clut1[256]\<close> and \<open>clut2[256]\<close> are total maps on the 256 byte
  values, which is what an array of 256 entries is.
\<close>

record CG14State =
  ds :: DisplayState
  vram :: "u8 list"
  vram_amask :: u32
  width :: c_int
  height :: c_int
  dirty :: c_int
  size_changed :: c_int
  ctrl :: ctrl_regs
  dac :: ADV7152_state
  timing :: timing_regs
  xlut :: "u8 \<Rightarrow> u8"
  clut1 :: "u8 \<Rightarrow> u32"
  clut2 :: "u8 \<Rightarrow> u32"

definition MCR_PIXMODE_MASK :: u8 where "MCR_PIXMODE_MASK = 0x30"
definition MCR_PIXMODE_8 :: u8 where "MCR_PIXMODE_8 = 0x00"
definition MCR_PIXMODE_16 :: u8 where "MCR_PIXMODE_16 = 0x20"
definition MCR_PIXMODE_32 :: u8 where "MCR_PIXMODE_32 = 0x30"
definition CG14_MONID_DEFAULT :: u32 where "CG14_MONID_DEFAULT = 0"

section \<open>The host console interface\<close>

definition qemu_console_resize :: "DisplayState \<Rightarrow> c_int \<Rightarrow> c_int \<Rightarrow> DisplayState" where
  "qemu_console_resize d w h = d\<lparr>ds_resizes := ds_resizes d @ [(w, h)]\<rparr>"

definition dpy_update ::
  "DisplayState \<Rightarrow> c_int \<Rightarrow> c_int \<Rightarrow> c_int \<Rightarrow> c_int \<Rightarrow> DisplayState" where
  "dpy_update d x y w h = d\<lparr>ds_updates := ds_updates d @ [(x, y, w, h)]\<rparr>"

section \<open>The DAC (ADV7152)\<close>

text \<open>C's logical negation on an \<open>unsigned int\<close>: 1 for 0, 0 for anything else.\<close>

definition c_not :: "u32 \<Rightarrow> u32" where
  "c_not v = (if v = 0 then 1 else 0)"

text \<open>\<open>ADV7152_write\<close>. The test of the mode register is \<open>!val & 0x01\<close>, which C
  parses as \<open>(!val) & 0x01\<close>.\<close>

definition ADV7152_write :: "ADV7152_state \<Rightarrow> u32 \<Rightarrow> u32 \<Rightarrow> ADV7152_state" where
  "ADV7152_write s reg val =
     (if reg = 0 then s\<lparr>address := ucast val, rgb_seq := 0\<rparr>
      else if reg = 1 then s\<lparr>rgb_seq := rgb_seq s + 1\<rparr>
      else if reg = 2 then s
      else if reg = 3 then
        (let s1 = (if c_not val AND 0x01 \<noteq> 0 then s\<lparr>rgb_seq := 0\<rparr> else s)
         in s1\<lparr>mode := ucast val\<rparr>)
      else s)"

section \<open>The control region\<close>

definition cg14_reg_readb :: "CG14State \<Rightarrow> u64 \<Rightarrow> u32" where
  "cg14_reg_readb s addr =
     (let a = addr AND 0xffff in
      if a = 0x0000 then ucast (mcr (ctrl s))
      else if a = 0x0001 then ucast (ppr (ctrl s))
      else if a = 0x0004 then push_bit 1 CG14_MONID_DEFAULT
      else if a = 0x0006 then 0x30
      else 0)"

definition cg14_reg_writeb :: "CG14State \<Rightarrow> u64 \<Rightarrow> u32 \<Rightarrow> CG14State" where
  "cg14_reg_writeb s addr val =
     (if addr AND 0xfcff = 0x2000 then
        (let i = (ucast (drop_bit 8 (addr AND 0x300)) :: u32)
         in s\<lparr>dac := ADV7152_write (dac s) i val\<rparr>)
      else if addr AND 0xff00 = 0x3000 then
        (let i = (ucast (addr AND 0xff) :: u32) in
         if (ucast (xlut s (ucast i)) :: u32) \<noteq> val
         then s\<lparr>dirty := 1, xlut := (xlut s)(ucast i := ucast val)\<rparr>
         else s)
      else
        (let s1 = s\<lparr>dirty := 1\<rparr>; a = addr AND 0xffff in
         if a = 0x0000 then s1\<lparr>ctrl := (ctrl s1)\<lparr>mcr := ucast val\<rparr>\<rparr>
         else if a = 0x0001 then s1\<lparr>ctrl := (ctrl s1)\<lparr>ppr := ucast (val AND 0xF0)\<rparr>\<rparr>
         else if a = 0x0007 then s1
         else s1))"

definition cg14_reg_readw :: "CG14State \<Rightarrow> u64 \<Rightarrow> u32" where
  "cg14_reg_readw s addr =
     (let a = addr AND 0xffff in
      if a = 0x0018 then ucast (hblank_start (timing s))
      else if a = 0x001a then ucast (hblank_clear (timing s))
      else if a = 0x0022 then ucast (vblank_start (timing s))
      else if a = 0x0024 then ucast (vblank_clear (timing s))
      else 0)"

definition cg14_reg_writew :: "CG14State \<Rightarrow> u64 \<Rightarrow> u32 \<Rightarrow> CG14State" where
  "cg14_reg_writew s addr val =
     (let a = addr AND 0xffff in
      if a = 0x0018 then s\<lparr>timing := (timing s)\<lparr>hblank_start := ucast val\<rparr>\<rparr>
      else if a = 0x001a then
        s\<lparr>timing := (timing s)\<lparr>hblank_clear := ucast val\<rparr>, size_changed := 1\<rparr>
      else if a = 0x0022 then s\<lparr>timing := (timing s)\<lparr>vblank_start := ucast val\<rparr>\<rparr>
      else if a = 0x0024 then
        s\<lparr>timing := (timing s)\<lparr>vblank_clear := ucast val\<rparr>, size_changed := 1\<rparr>
      else s)"

definition cg14_reg_readl :: "CG14State \<Rightarrow> u64 \<Rightarrow> u32" where
  "cg14_reg_readl s addr =
     (let i = (ucast (drop_bit 2 (addr AND 0x3ff)) :: u32); a = addr AND 0xfc00 in
      if a = 0x4000 then clut1 s (ucast i)
      else if a = 0x5000 then clut2 s (ucast i)
      else 0)"

definition cg14_reg_writel :: "CG14State \<Rightarrow> u64 \<Rightarrow> u32 \<Rightarrow> CG14State" where
  "cg14_reg_writel s addr val =
     (let s1 = s\<lparr>dirty := 1\<rparr>;
          i = (ucast (drop_bit 2 (addr AND 0x3ff)) :: u32);
          a = addr AND 0xfc00 in
      if a = 0x4000 then s1\<lparr>clut1 := (clut1 s1)(ucast i := val)\<rparr>
      else if a = 0x5000 then s1\<lparr>clut2 := (clut2 s1)(ucast i := val)\<rparr>
      else s1)"

section \<open>The video memory region\<close>

text \<open>
  QEMU's byte accessors on a host pointer, here a buffer and an offset into it:
  \<open>ldub_p\<close> and \<open>stb_p\<close> move one byte, \<open>ldl_be_p\<close> and \<open>stl_be_p\<close> four bytes,
  most significant first. An access that leaves the buffer is \<open>OutOfBounds\<close>.
\<close>

definition ldub_p :: "u8 list \<Rightarrow> nat \<Rightarrow> error + u32" where
  "ldub_p buf off = (if off < length buf then Inr (ucast (buf ! off)) else Inl OutOfBounds)"

definition stb_p :: "u8 list \<Rightarrow> nat \<Rightarrow> u32 \<Rightarrow> error + u8 list" where
  "stb_p buf off v = (if off < length buf then Inr (buf[off := ucast v]) else Inl OutOfBounds)"

definition ldl_be_p :: "u8 list \<Rightarrow> nat \<Rightarrow> error + u32" where
  "ldl_be_p buf off =
     (if off + 3 < length buf
      then Inr (push_bit 24 (ucast (buf ! off)) OR push_bit 16 (ucast (buf ! (off + 1)))
                OR push_bit 8 (ucast (buf ! (off + 2))) OR ucast (buf ! (off + 3)))
      else Inl OutOfBounds)"

definition stl_be_p :: "u8 list \<Rightarrow> nat \<Rightarrow> u32 \<Rightarrow> error + u8 list" where
  "stl_be_p buf off v =
     (if off + 3 < length buf
      then Inr (buf[off := ucast (drop_bit 24 v), off + 1 := ucast (drop_bit 16 v),
                    off + 2 := ucast (drop_bit 8 v), off + 3 := ucast v])
      else Inl OutOfBounds)"

definition cg14_vram_readb :: "CG14State \<Rightarrow> u64 \<Rightarrow> error + u32" where
  "cg14_vram_readb s addr =
     (let w = addr AND 0x3000000 in
      if w = 0x0000000 then
        (let offset = (ucast (addr AND ucast (vram_amask s)) :: u32)
         in ldub_p (vram s) (unat offset))
      else if w = 0x1000000 then Inr 0
      else if w = 0x2000000 then
        (let offset = (ucast ((push_bit 1 addr AND ucast (vram_amask s))
                               + (drop_bit 23 addr AND 1)) :: u32)
         in ldub_p (vram s) (unat offset))
      else if w = 0x3000000 then
        (let offset = (ucast ((push_bit 2 addr AND ucast (vram_amask s))
                               + (drop_bit 22 addr AND 3)) :: u32)
         in ldub_p (vram s) (unat offset))
      else Inr 0)"

text \<open>In \<open>offset < 4 * s->width * s->height\<close> the product is an \<open>int\<close> and the offset a
  \<open>uint32_t\<close>: C converts the product to unsigned and compares unsigned.\<close>

definition cg14_vram_writeb :: "CG14State \<Rightarrow> u64 \<Rightarrow> u32 \<Rightarrow> error + CG14State" where
  "cg14_vram_writeb s addr val =
     (if addr AND 0x3000000 = 0x0000000 then
        (let offset = (ucast (addr AND ucast (vram_amask s)) :: u32) in
         case stb_p (vram s) (unat offset) val of
           Inl e \<Rightarrow> Inl e
         | Inr buf \<Rightarrow>
             (let s1 = s\<lparr>vram := buf\<rparr> in
              if offset < 4 * width s1 * height s1 then Inr (s1\<lparr>dirty := 1\<rparr>) else Inr s1))
      else Inr s)"

definition cg14_vram_readw :: "CG14State \<Rightarrow> u64 \<Rightarrow> u32" where
  "cg14_vram_readw s addr = 0"

definition cg14_vram_writew :: "CG14State \<Rightarrow> u64 \<Rightarrow> u32 \<Rightarrow> CG14State" where
  "cg14_vram_writew s addr val = s\<lparr>dirty := 1\<rparr>"

definition cg14_vram_readl :: "CG14State \<Rightarrow> u64 \<Rightarrow> error + u32" where
  "cg14_vram_readl s addr =
     (if addr AND 0x3000000 = 0x0000000 then
        (let offset = (ucast (addr AND ucast (vram_amask s)) :: u32)
         in ldl_be_p (vram s) (unat offset))
      else Inr 0)"

definition cg14_vram_writel :: "CG14State \<Rightarrow> u64 \<Rightarrow> u32 \<Rightarrow> error + CG14State" where
  "cg14_vram_writel s addr val =
     (if addr AND 0x3000000 = 0x0000000 then
        (let offset = (ucast (addr AND ucast (vram_amask s)) :: u32) in
         case stl_be_p (vram s) (unat offset) val of
           Inl e \<Rightarrow> Inl e
         | Inr buf \<Rightarrow>
             (let s1 = s\<lparr>vram := buf\<rparr> in
              if offset < 4 * width s1 * height s1 then Inr (s1\<lparr>dirty := 1\<rparr>) else Inr s1))
      else Inr s)"

section \<open>Rendering\<close>

definition bgr_to_rgb :: "u32 \<Rightarrow> u32" where
  "bgr_to_rgb bgr =
     (bgr AND 0x00FF00) OR push_bit 16 (bgr AND 0x0000FF) OR drop_bit 16 (bgr AND 0xFF0000)"

text \<open>\<open>*src\<close> for a pointer \<open>src\<close> at byte offset \<open>off\<close> from \<open>s->vram\<close>.\<close>

definition vram_at :: "u8 list \<Rightarrow> int \<Rightarrow> error + u8" where
  "vram_at buf off =
     (if 0 \<le> off \<and> off < int (length buf) then Inr (buf ! nat off) else Inl OutOfBounds)"

text \<open>
  The body of the loop of \<open>cg14_draw_line32\<close> up to the composed colour: from the
  source pointer and the running \<open>xlut_val\<close> to the advanced pointer, the new
  \<open>xlut_val\<close> and \<open>abgr\<close>.
\<close>

definition draw_pixel :: "CG14State \<Rightarrow> c_int \<Rightarrow> int \<Rightarrow> u8 \<Rightarrow> error + (int \<times> u8 \<times> u32)" where
  "draw_pixel s pixmode src xlut_val =
     (case vram_at (vram s) src of
        Inl e \<Rightarrow> Inl e
      | Inr x \<Rightarrow>
     (case (if pixmode = 8 then Inr (x, src + 1, xlut_val)
            else (case vram_at (vram s) (src + 1) of
                    Inl e \<Rightarrow> Inl e
                  | Inr b \<Rightarrow> Inr (b, src + 2, xlut s x))) of
        Inl e \<Rightarrow> Inl e
      | Inr (b, src1, xlut_val1) \<Rightarrow>
     (case (if pixmode \<noteq> 32 then Inr (b, b, src1)
            else (case vram_at (vram s) src1 of
                    Inl e \<Rightarrow> Inl e
                  | Inr g \<Rightarrow>
                      (case vram_at (vram s) (src1 + 1) of
                         Inl e \<Rightarrow> Inl e
                       | Inr r \<Rightarrow> Inr (r, g, src1 + 2)))) of
        Inl e \<Rightarrow> Inl e
      | Inr (r, g, src2) \<Rightarrow>
          (let abgr =
                 (if xlut_val1 = 0
                  then push_bit 16 (ucast b) OR push_bit 8 (ucast g) OR ucast r
                  else if xlut_val1 = 0x40 then clut1 s x
                  else 0)
           in Inr (src2, xlut_val1, abgr)))))"

text \<open>The conversion to the surface format, \<open>dval\<close>.\<close>

definition surface_word :: "c_int \<Rightarrow> u32 \<Rightarrow> u32" where
  "surface_word is_bgr abgr = (if is_bgr \<noteq> 0 then abgr AND 0xFFFFFF else bgr_to_rgb abgr)"

text \<open>
  The loop of \<open>cg14_draw_line32\<close> from pixel \<open>i\<close> on. \<open>dst\<close> is the byte offset of the
  line in the surface data and \<open>((uint32_t* )dst)[i] = dval\<close> is a store at
  \<open>dst + 4 * i\<close>, appended to the stores made so far.
\<close>

function draw_line32_loop ::
  "CG14State \<Rightarrow> int \<Rightarrow> c_int \<Rightarrow> c_int \<Rightarrow> nat \<Rightarrow> int \<Rightarrow> u8 \<Rightarrow> (int \<times> u32) list
     \<Rightarrow> error + (int \<times> u32) list" where
  "draw_line32_loop s dst pixmode is_bgr i src xlut_val stores =
     (if int i < sint (width s) then
        (case draw_pixel s pixmode src xlut_val of
           Inl e \<Rightarrow> Inl e
         | Inr (src', xlut_val', abgr) \<Rightarrow>
             draw_line32_loop s dst pixmode is_bgr (Suc i) src' xlut_val'
               (stores @ [(dst + 4 * int i, surface_word is_bgr abgr)]))
      else Inr stores)"
  by pat_completeness auto
termination
  by (relation "measure (\<lambda>(s, dst, pixmode, is_bgr, i, src, xlut_val, stores).
                   nat (sint (width s)) - i)") auto

declare draw_line32_loop.simps [simp del]

definition cg14_draw_line32 ::
  "CG14State \<Rightarrow> int \<Rightarrow> int \<Rightarrow> c_int \<Rightarrow> c_int \<Rightarrow> (int \<times> u32) list
     \<Rightarrow> error + (int \<times> u32) list" where
  "cg14_draw_line32 s dst src pixmode is_bgr stores =
     draw_line32_loop s dst pixmode is_bgr 0 src (ppr (ctrl s)) stores"

text \<open>
  The loop over the scan lines of \<open>cg14_update_display\<close> from line \<open>h\<close> on:
  \<open>pix\<close> is the offset of the source line in video memory, \<open>data\<close> that of the
  destination line in the surface data. \<open>pixmode\<close> is 8, 16 or 32 there.
\<close>

function draw_lines ::
  "CG14State \<Rightarrow> c_int \<Rightarrow> nat \<Rightarrow> int \<Rightarrow> int \<Rightarrow> (int \<times> u32) list
     \<Rightarrow> error + (int \<times> u32) list" where
  "draw_lines s pixmode h pix data stores =
     (if int h < sint (height s) then
        (case cg14_draw_line32 s data pix pixmode (ds_surface_bgr (ds s)) stores of
           Inl e \<Rightarrow> Inl e
         | Inr stores' \<Rightarrow>
             draw_lines s pixmode (Suc h)
               (pix + sint (width s * (pixmode div 8)))
               (data + sint (ds_linesize (ds s))) stores')
      else Inr stores)"
  by pat_completeness auto
termination
  by (relation "measure (\<lambda>(s, pixmode, h, pix, data, stores). nat (sint (height s)) - h)") auto

declare draw_lines.simps [simp del]

text \<open>The first part of \<open>cg14_update_display\<close>: the geometry follows the timing
  registers when they have changed.\<close>

definition update_size :: "CG14State \<Rightarrow> CG14State" where
  "update_size s =
     (if size_changed s \<noteq> 0 then
        (let new_width = (4 * (ucast (hblank_start (timing s)) - ucast (hblank_clear (timing s))) :: c_int);
             new_height = (ucast (vblank_start (timing s)) - ucast (vblank_clear (timing s)) :: c_int);
             s1 = s\<lparr>size_changed := 0\<rparr>
         in if (new_width \<noteq> width s1 \<or> new_height \<noteq> height s1) \<and> 0 <s new_width \<and> 0 <s new_height
            then
              (let s2 = s1\<lparr>width := new_width, height := new_height\<rparr>;
                   s3 = s2\<lparr>ds := qemu_console_resize (ds s2) (width s2) (height s2)\<rparr>
               in s3\<lparr>dirty := 1\<rparr>)
            else s1)
      else s)"

text \<open>The last part of \<open>cg14_update_display\<close>, from the decoding of the pixel mode
  on: the frame is drawn, presented, and \<open>dirty\<close> is cleared.\<close>

definition render_frame :: "CG14State \<Rightarrow> error + CG14State" where
  "render_frame s =
     (let m = mcr (ctrl s) AND MCR_PIXMODE_MASK;
          pixmode = (if m = MCR_PIXMODE_32 then 32 else if m = MCR_PIXMODE_16 then 16 else 8)
      in case draw_lines s pixmode 0 0 0 (ds_stores (ds s)) of
           Inl e \<Rightarrow> Inl e
         | Inr stores' \<Rightarrow>
             (let s1 = s\<lparr>ds := (ds s)\<lparr>ds_stores := stores'\<rparr>\<rparr>;
                  s2 = s1\<lparr>ds := dpy_update (ds s1) 0 0 (width s1) (height s1)\<rparr>
              in Inr (s2\<lparr>dirty := 0\<rparr>)))"

definition cg14_update_display :: "CG14State \<Rightarrow> error + CG14State" where
  "cg14_update_display s0 =
     (let s = update_size s0 in
      if dirty s = 0 \<or> width s = 0 \<or> height s = 0 then Inr s
      else if ds_bits_per_pixel (ds s) \<noteq> 32 then Inr s
      else render_frame s)"

definition cg14_invalidate_display :: "CG14State \<Rightarrow> CG14State" where
  "cg14_invalidate_display s = s\<lparr>dirty := 1\<rparr>"

section \<open>Construction\<close>

text \<open>
  \<open>cg14_init\<close>: the state is zeroed (\<open>qemu_mallocz\<close>), the video memory is a fresh
  block of \<open>vram_size\<close> bytes (taken as zeroed), the console is the one
  \<open>graphic_console_init\<close> hands out, here the argument \<open>console\<close>. The registration of
  the memory regions is QEMU's and is left out.
\<close>

definition cg14_init :: "u32 \<Rightarrow> DisplayState \<Rightarrow> CG14State" where
  "cg14_init vram_size console =
     \<lparr> ds = qemu_console_resize console 640 480,
       vram = replicate (unat vram_size) 0,
       vram_amask = vram_size - 1,
       width = 640, height = 480,
       dirty = 0, size_changed = 0,
       ctrl = \<lparr>mcr = 0, ppr = 0\<rparr>,
       dac = \<lparr>mode = 0, address = 0, rgb_seq = 0\<rparr>,
       timing = \<lparr>hblank_start = 0, hblank_clear = 0, vblank_start = 0, vblank_clear = 0\<rparr>,
       xlut = (\<lambda>_. 0), clut1 = (\<lambda>_. 0), clut2 = (\<lambda>_. 0) \<rparr>"

section \<open>The specification's side\<close>

text \<open>
  The definitions of this section follow the words of the specification, not the code;
  the theorems below compare them with the code.
\<close>

text \<open>Window 2: the storage offset is \<open>((a<<1) & mask) + ((a>>23) & 1)\<close>.\<close>

definition spec_window2_offset :: "u32 \<Rightarrow> u64 \<Rightarrow> u64" where
  "spec_window2_offset m a = (push_bit 1 a AND ucast m) + (drop_bit 23 a AND 1)"

text \<open>Window 0: the storage offset is \<open>addr & mask\<close>.\<close>

definition spec_window0_offset :: "u32 \<Rightarrow> u64 \<Rightarrow> u32" where
  "spec_window0_offset m a = ucast a AND m"

text \<open>A pixel takes 1, 2 or 4 source bytes in 8, 16 and 32 bit mode.\<close>

definition bytes_per_pixel :: "c_int \<Rightarrow> int" where
  "bytes_per_pixel pixmode = (if pixmode = 8 then 1 else if pixmode = 32 then 4 else 2)"

text \<open>The selected XLUT value: the packing-ratio register in 8 bit mode, the XLUT
  entry of the first consumed byte otherwise.\<close>

definition spec_xlut_value :: "CG14State \<Rightarrow> c_int \<Rightarrow> u8 \<Rightarrow> u8" where
  "spec_xlut_value s pixmode index = (if pixmode = 8 then ppr (ctrl s) else xlut s index)"

text \<open>The palette selection rule: direct colour for 0, \<open>clut1[index]\<close> for 0x40,
  zero for anything else.\<close>

definition spec_colour :: "CG14State \<Rightarrow> u8 \<Rightarrow> u8 \<Rightarrow> u8 \<Rightarrow> u8 \<Rightarrow> u8 \<Rightarrow> u32" where
  "spec_colour s xlut_value index blue green red =
     (if xlut_value = 0 then push_bit 16 (ucast blue) OR push_bit 8 (ucast green) OR ucast red
      else if xlut_value = 0x40 then clut1 s index
      else 0)"

text \<open>The colour of the pixel whose source bytes start at offset \<open>p\<close> of the video
  memory: the first byte is the index; blue is the index in 8 bit mode and the second byte
  otherwise; green and red are the third and fourth byte in 32 bit mode and equal blue
  otherwise.\<close>

definition spec_pixel :: "CG14State \<Rightarrow> c_int \<Rightarrow> int \<Rightarrow> u32" where
  "spec_pixel s pixmode p =
     (let index = vram s ! nat p;
          blue = (if pixmode = 8 then index else vram s ! nat (p + 1));
          green = (if pixmode = 32 then vram s ! nat (p + 2) else blue);
          red = (if pixmode = 32 then vram s ! nat (p + 3) else blue)
      in spec_colour s (spec_xlut_value s pixmode index) index blue green red)"

text \<open>Byte \<open>n\<close> of a 32 bit colour word, byte 0 the least significant.\<close>

definition colour_byte :: "u32 \<Rightarrow> nat \<Rightarrow> u8" where
  "colour_byte w n = ucast (drop_bit (8 * n) w)"

text \<open>A host console with a 32 bit surface that is not blue-first, for the examples.\<close>

definition console32 :: DisplayState where
  "console32 = \<lparr>ds_bits_per_pixel = 32, ds_linesize = 2560, ds_surface_bgr = 0,
                 ds_resizes = [], ds_stores = [], ds_updates = []\<rparr>"

text \<open>A device on a 16 bit surface whose timing registers have been written for
  1024 x 768 (\<open>hblank_start\<close> 0x100, \<open>vblank_start\<close> 0x300, both clear registers 0) and
  that has not been refreshed since, for the examples.\<close>

definition pending_geometry_16bpp :: CG14State where
  "pending_geometry_16bpp =
     cg14_reg_writew (cg14_reg_writew (cg14_reg_writew (cg14_reg_writew
       (cg14_init 16 (console32\<lparr>ds_bits_per_pixel := 16\<rparr>))
       0x0018 0x100) 0x001a 0) 0x0022 0x300) 0x0024 0"

section \<open>Address decoding of the control region\<close>

lemma low16_fcff: "(addr :: u64) AND 0xfcff = (addr AND 0xffff) AND 0xfcff"
  by (simp add: and.assoc)

lemma low16_ff00: "(addr :: u64) AND 0xff00 = (addr AND 0xffff) AND 0xff00"
  by (simp add: and.assoc)

lemma ppr_offset_not_dac_xlut:
  assumes "(addr :: u64) AND 0xffff = 0x0001"
  shows "addr AND 0xfcff \<noteq> 0x2000" and "addr AND 0xff00 \<noteq> 0x3000"
proof -
  have "addr AND 0xfcff = 1" using low16_fcff [of addr] assms by simp
  then show "addr AND 0xfcff \<noteq> 0x2000" by simp
  have "addr AND 0xff00 = 0" using low16_ff00 [of addr] assms by simp
  then show "addr AND 0xff00 \<noteq> 0x3000" by simp
qed

lemma high_nibble_byte: "(ucast ((ucast (v :: u8) :: u32) AND 0xF0) :: u8) = v AND 0xF0"
  by (rule bit_word_eqI) (auto simp: bit_simps)

lemma halfword_back: "(ucast (ucast (v :: u16) :: u32) :: u16) = v"
  by (rule bit_word_eqI) (auto simp: bit_simps)

lemma ucast_via_u32: "(ucast (ucast (x :: u64) :: u32) :: u8) = ucast x"
  by (rule bit_word_eqI) (auto simp: bit_simps)

text \<open>The index of a colour table entry, \<open>(addr & 0x3ff) >> 2\<close>, is below 256, so
  nothing is lost when it indexes the table.\<close>

lemma clut_index_bound: "unat (ucast (drop_bit 2 ((addr :: u64) AND 0x3ff)) :: u32) < 256"
proof -
  have m: "(0x3ff :: u64) = mask 10" by (simp add: mask_eq_exp_minus_1)
  have "(ucast (drop_bit 2 (addr AND 0x3ff)) :: u32) = take_bit 8 (ucast (drop_bit 2 addr))"
    unfolding m by (rule bit_word_eqI) (auto simp: bit_simps)
  moreover have "unat (take_bit 8 (ucast (drop_bit 2 addr) :: u32)) < 2 ^ 8"
    unfolding unsigned_take_bit_eq by (rule take_bit_nat_less_exp)
  ultimately show ?thesis by simp
qed

section \<open>The DAC\<close>

text \<open>What a write to the mode register does: the sequence counter is reset exactly
  when the whole value is 0.\<close>

lemma ADV7152_write_mode:
  "ADV7152_write s 3 v = s\<lparr>rgb_seq := (if v = 0 then 0 else rgb_seq s), mode := ucast v\<rparr>"
  by (simp add: ADV7152_write_def c_not_def Let_def)

lemma ADV7152_write_address:
  "ADV7152_write s 0 v = s\<lparr>address := ucast v, rgb_seq := 0\<rparr>"
  by (simp add: ADV7152_write_def)

lemma ADV7152_write_lut:
  "ADV7152_write s 1 v = s\<lparr>rgb_seq := rgb_seq s + 1\<rparr>"
  by (simp add: ADV7152_write_def)

text \<open>
  C4. A write of \<open>v\<close> to DAC sub-register 3 is claimed to reset \<open>rgb_seq\<close> to 0 whenever
  bit 0 of \<open>v\<close> is clear. The code tests \<open>!val & 0x01\<close>: after one look-up table write
  (offset 0x2100), the mode write of 0x02 (offset 0x2300), whose bit 0 is clear, leaves
  \<open>rgb_seq\<close> at 1; the mode byte is set to 0x02.
\<close>

theorem dac_mode_write_keeps_rgb_seq:
  "(0x02 :: u32) AND 0x01 = 0 \<and>
   rgb_seq (dac (cg14_reg_writeb (cg14_init 16 console32) 0x2100 0)) = 1 \<and>
   rgb_seq (dac (cg14_reg_writeb (cg14_reg_writeb (cg14_init 16 console32) 0x2100 0) 0x2300 0x02)) = 1 \<and>
   mode (dac (cg14_reg_writeb (cg14_reg_writeb (cg14_init 16 console32) 0x2100 0) 0x2300 0x02)) = 0x02"
  by (simp add: cg14_reg_writeb_def cg14_init_def ADV7152_write_def c_not_def Let_def)

section \<open>Byte and halfword registers\<close>

text \<open>
  C5, as amended. At a control-region offset that matches no recognised range, a byte read
  returns 0, and a byte write stores no value: registers, tables and video memory stay as
  they are and only the \<open>dirty\<close> flag is set to 1.
\<close>

theorem unknown_reg_offset:
  assumes "addr AND 0xfcff \<noteq> 0x2000" and "addr AND 0xff00 \<noteq> 0x3000"
    and "addr AND 0xffff \<notin> {0x0000, 0x0001, 0x0004, 0x0006, 0x0007}"
  shows "cg14_reg_readb s addr = 0 \<and> cg14_reg_writeb s addr val = s\<lparr>dirty := 1\<rparr>"
  using assms by (simp add: cg14_reg_readb_def cg14_reg_writeb_def Let_def)

theorem unknown_reg_offset_witness:
  "(0x0002 :: u64) AND 0xfcff \<noteq> 0x2000 \<and> (0x0002 :: u64) AND 0xff00 \<noteq> 0x3000 \<and>
   (0x0002 :: u64) AND 0xffff \<notin> {0x0000, 0x0001, 0x0004, 0x0006, 0x0007} \<and>
   cg14_reg_readb (cg14_init 16 console32) 0x0002 = 0 \<and>
   cg14_reg_writeb (cg14_init 16 console32) 0x0002 0x55 = (cg14_init 16 console32)\<lparr>dirty := 1\<rparr>"
  using unknown_reg_offset [of "0x0002" "cg14_init 16 console32" "0x55"] by simp

text \<open>
  C5 as stated fails: the write to the unknown offset 0x0002 changes the state of a freshly
  constructed device, whose \<open>dirty\<close> flag goes from 0 to 1.
\<close>

theorem unknown_reg_write_sets_dirty:
  "(0x0002 :: u64) AND 0xfcff \<noteq> 0x2000 \<and> (0x0002 :: u64) AND 0xff00 \<noteq> 0x3000 \<and>
   (0x0002 :: u64) AND 0xffff \<notin> {0x0000, 0x0001, 0x0004, 0x0006, 0x0007} \<and>
   dirty (cg14_init 16 console32) = 0 \<and>
   dirty (cg14_reg_writeb (cg14_init 16 console32) 0x0002 0x55) = 1 \<and>
   cg14_reg_writeb (cg14_init 16 console32) 0x0002 0x55 \<noteq> cg14_init 16 console32"
proof -
  have d0: "dirty (cg14_init 16 console32) = 0" by (simp add: cg14_init_def)
  have d1: "dirty (cg14_reg_writeb (cg14_init 16 console32) 0x0002 0x55) = 1"
    by (simp add: cg14_reg_writeb_def Let_def)
  have "cg14_reg_writeb (cg14_init 16 console32) 0x0002 0x55 \<noteq> cg14_init 16 console32"
    using d0 d1 by (metis zero_neq_one)
  with d0 d1 show ?thesis by simp
qed

text \<open>
  C7. A halfword write of a 16 bit value to \<open>hblank_clear\<close> (0x001a) or \<open>vblank_clear\<close>
  (0x0024) stores the value and sets \<open>size_changed\<close>; a halfword write to
  \<open>hblank_start\<close> (0x0018) or \<open>vblank_start\<close> (0x0022) stores the value and changes
  nothing else, so \<open>size_changed\<close> stays as it was.
\<close>

theorem timing_write_size_changed:
  fixes v :: u16
  assumes "a1 AND 0xffff = 0x001a" and "a2 AND 0xffff = 0x0024"
    and "a3 AND 0xffff = 0x0018" and "a4 AND 0xffff = 0x0022"
  shows "cg14_reg_writew s a1 (ucast v) =
           s\<lparr>timing := (timing s)\<lparr>hblank_clear := v\<rparr>, size_changed := 1\<rparr> \<and>
         cg14_reg_writew s a2 (ucast v) =
           s\<lparr>timing := (timing s)\<lparr>vblank_clear := v\<rparr>, size_changed := 1\<rparr> \<and>
         cg14_reg_writew s a3 (ucast v) = s\<lparr>timing := (timing s)\<lparr>hblank_start := v\<rparr>\<rparr> \<and>
         cg14_reg_writew s a4 (ucast v) = s\<lparr>timing := (timing s)\<lparr>vblank_start := v\<rparr>\<rparr>"
  using assms by (simp add: cg14_reg_writew_def Let_def halfword_back)

theorem timing_write_size_changed_witness:
  "(0x001a :: u64) AND 0xffff = 0x001a \<and> (0x0024 :: u64) AND 0xffff = 0x0024 \<and>
   (0x0018 :: u64) AND 0xffff = 0x0018 \<and> (0x0022 :: u64) AND 0xffff = 0x0022 \<and>
   size_changed (cg14_init 16 console32) = 0 \<and>
   size_changed (cg14_reg_writew (cg14_init 16 console32) 0x001a 0x0020) = 1 \<and>
   hblank_clear (timing (cg14_reg_writew (cg14_init 16 console32) 0x001a 0x0020)) = 0x0020 \<and>
   size_changed (cg14_reg_writew (cg14_init 16 console32) 0x0024 0x0010) = 1 \<and>
   vblank_clear (timing (cg14_reg_writew (cg14_init 16 console32) 0x0024 0x0010)) = 0x0010 \<and>
   size_changed (cg14_reg_writew (cg14_init 16 console32) 0x0018 0x00c0) = 0 \<and>
   hblank_start (timing (cg14_reg_writew (cg14_init 16 console32) 0x0018 0x00c0)) = 0x00c0 \<and>
   size_changed (cg14_reg_writew (cg14_init 16 console32) 0x0022 0x01f0) = 0 \<and>
   vblank_start (timing (cg14_reg_writew (cg14_init 16 console32) 0x0022 0x01f0)) = 0x01f0"
  using timing_write_size_changed [of "0x001a" "0x0024" "0x0018" "0x0022" "cg14_init 16 console32" "0x0020"]
    timing_write_size_changed [of "0x001a" "0x0024" "0x0018" "0x0022" "cg14_init 16 console32" "0x0010"]
    timing_write_size_changed [of "0x001a" "0x0024" "0x0018" "0x0022" "cg14_init 16 console32" "0x00c0"]
    timing_write_size_changed [of "0x001a" "0x0024" "0x0018" "0x0022" "cg14_init 16 console32" "0x01f0"]
  by (simp add: cg14_init_def)

text \<open>
  C10. A byte write of \<open>v\<close> to the packing-ratio register (offset 0x0001) keeps the high
  nibble only: the byte read at that offset returns \<open>v & 0xF0\<close> afterwards.
\<close>

theorem ppr_write_keeps_high_nibble:
  fixes v :: u8
  assumes "addr AND 0xffff = 0x0001"
  shows "cg14_reg_readb (cg14_reg_writeb s addr (ucast v)) addr = ucast (v AND 0xF0)"
  using ppr_offset_not_dac_xlut [OF assms]
  by (simp add: cg14_reg_readb_def cg14_reg_writeb_def Let_def assms high_nibble_byte)

theorem ppr_write_keeps_high_nibble_witness:
  "(0x0001 :: u64) AND 0xffff = 0x0001 \<and>
   cg14_reg_readb (cg14_reg_writeb (cg14_init 16 console32) 0x0001 0xAB) 0x0001 = 0xA0"
  using ppr_write_keeps_high_nibble [of "0x0001" "cg14_init 16 console32" "0xAB"] by simp

section \<open>The colour look-up tables\<close>

text \<open>
  C8. A word write of \<open>v\<close> into the CLUT1 range (\<open>addr & 0xfc00 = 0x4000\<close>) or the CLUT2
  range (\<open>addr & 0xfc00 = 0x5000\<close>) sets the entry of index \<open>(addr & 0x3ff) >> 2\<close>, and a
  word read at the same offset returns \<open>v\<close>.
\<close>

theorem clut_write_read_roundtrip:
  assumes "a1 AND 0xfc00 = 0x4000" and "a2 AND 0xfc00 = 0x5000"
  shows "cg14_reg_readl (cg14_reg_writel s a1 v) a1 = v \<and>
         clut1 (cg14_reg_writel s a1 v) = (clut1 s)(ucast (drop_bit 2 (a1 AND 0x3ff)) := v) \<and>
         cg14_reg_readl (cg14_reg_writel s a2 v) a2 = v \<and>
         clut2 (cg14_reg_writel s a2 v) = (clut2 s)(ucast (drop_bit 2 (a2 AND 0x3ff)) := v)"
  using assms by (simp add: cg14_reg_readl_def cg14_reg_writel_def Let_def ucast_via_u32)

theorem clut_write_read_roundtrip_witness:
  "(0x4014 :: u64) AND 0xfc00 = 0x4000 \<and> (0x5014 :: u64) AND 0xfc00 = 0x5000 \<and>
   cg14_reg_readl (cg14_reg_writel (cg14_init 16 console32) 0x4014 0xDEADBEEF) 0x4014 = 0xDEADBEEF \<and>
   clut1 (cg14_reg_writel (cg14_init 16 console32) 0x4014 0xDEADBEEF) 5 = 0xDEADBEEF \<and>
   cg14_reg_readl (cg14_reg_writel (cg14_init 16 console32) 0x5014 0xDEADBEEF) 0x5014 = 0xDEADBEEF \<and>
   clut2 (cg14_reg_writel (cg14_init 16 console32) 0x5014 0xDEADBEEF) 5 = 0xDEADBEEF"
  using clut_write_read_roundtrip [of "0x4014" "0x5014" "cg14_init 16 console32" "0xDEADBEEF"]
  by simp

section \<open>The video memory windows\<close>

lemma ucast_amask: "k \<le> 32 \<Longrightarrow> (ucast (2 ^ k - 1 :: u32) :: u64) = mask k"
  by (simp flip: mask_eq_exp_minus_1 add: ucast_mask_eq min_def)

lemma phase_le1: "unat ((x :: u64) AND 1) \<le> 1"
  by (metis unat_1 word_and_le1 word_le_nat_alt)

lemma shl_mask:
  "n \<le> k \<Longrightarrow> push_bit n (a :: u64) AND mask k = push_bit n (take_bit (k - n) a)"
  by (rule bit_word_eqI) (auto simp: bit_simps)

lemma dbl_mask: "0 < k \<Longrightarrow> push_bit 1 (a :: u64) AND mask k = 2 * take_bit (k - 1) a"
  using shl_mask [of 1 k a] by (simp add: push_bit_eq_mult mult.commute)

text \<open>The doubled address, masked, is even and so leaves room for the phase bit.\<close>

lemma dbl_bound:
  assumes "0 < k" and "k \<le> 32"
  shows "unat (push_bit 1 (a :: u64) AND mask k) + 2 \<le> 2 ^ k"
proof -
  have "unat (take_bit (k - 1) a) < 2 ^ (k - 1)"
    unfolding unsigned_take_bit_eq by (rule take_bit_nat_less_exp)
  moreover have "unat (2 * take_bit (k - 1) a) \<le> 2 * unat (take_bit (k - 1) a)"
    by (simp add: unat_word_ariths)
  moreover have "(2::nat) ^ k = 2 * 2 ^ (k - 1)" using assms by (cases k) auto
  ultimately show ?thesis unfolding dbl_mask [OF assms(1)] by linarith
qed

lemma window2_sum:
  assumes "0 < k" and "k \<le> 32"
  shows "unat ((push_bit 1 (a :: u64) AND mask k) + (drop_bit 23 a AND 1))
       = unat (push_bit 1 a AND mask k) + unat (drop_bit 23 a AND 1)"
proof -
  have "(2::nat) ^ k \<le> 2 ^ 32" using assms by (intro power_increasing) auto
  then have "unat (push_bit 1 a AND mask k) + unat (drop_bit 23 a AND 1) < 2 ^ 64"
    using dbl_bound [OF assms, of a] phase_le1 [of "drop_bit 23 a"] by simp
  then show ?thesis by (simp add: unat_add_lem [THEN iffD1])
qed

lemma window2_offset_bound:
  assumes "0 < k" and "k \<le> 32"
  shows "unat (spec_window2_offset (2 ^ k - 1) a) < 2 ^ k"
proof -
  have "unat (push_bit 1 a AND mask k) + unat (drop_bit 23 a AND 1) < 2 ^ k"
    using dbl_bound [OF assms, of a] phase_le1 [of "drop_bit 23 a"] by linarith
  then show ?thesis
    unfolding spec_window2_offset_def ucast_amask [OF assms(2)] window2_sum [OF assms] .
qed

lemma trunc_u32: "unat (x :: u64) < 2 ^ 32 \<Longrightarrow> unat (ucast x :: u32) = unat x"
  by (simp add: unsigned_ucast_eq take_bit_nat_eq_self)

lemma or_bit_masked:
  "k \<le> n + m \<Longrightarrow>
     push_bit n ((a :: u64) OR push_bit m 1) AND mask k = push_bit n a AND mask k"
  by (rule bit_word_eqI) (auto simp: bit_simps)

lemma bit23_word: "(0x800000 :: u64) = push_bit 23 1"
  by simp

lemma bit23_masked:
  assumes "k \<le> 24"
  shows "push_bit 1 ((a :: u64) OR 0x800000) AND mask k = push_bit 1 a AND mask k"
  unfolding bit23_word using assms by (intro or_bit_masked) simp

lemma phase_set_gen: "m < 64 \<Longrightarrow> drop_bit m ((a :: u64) OR push_bit m 1) AND 1 = 1"
  by (rule bit_word_eqI) (auto simp: bit_simps)

lemma phase_set: "drop_bit 23 ((a :: u64) OR 0x800000) AND 1 = 1"
  unfolding bit23_word by (rule phase_set_gen) simp

lemma phase_clear_gen:
  assumes "(a :: u64) AND push_bit m 1 = 0"
  shows "drop_bit m a AND 1 = 0"
proof -
  have "\<not> bit a m"
  proof
    assume "bit a m"
    then have "bit (a AND push_bit m 1) m"
      by (auto simp: bit_simps dest: bit_imp_possible_bit)
    with assms show False by simp
  qed
  then show ?thesis
    by (intro bit_word_eqI) (auto simp: bit_simps intro!: gr0I)
qed

lemma phase_clear: "(a :: u64) AND 0x800000 = 0 \<Longrightarrow> drop_bit 23 a AND 1 = 0"
  unfolding bit23_word by (rule phase_clear_gen)

lemma window2_keep:
  "(a :: u64) AND 0x3000000 = 0x2000000 \<Longrightarrow> (a OR 0x800000) AND 0x3000000 = 0x2000000"
  by (simp add: bit.conj_disj_distrib2)

text \<open>
  C2. For an address \<open>a\<close> of window 2 (\<open>a & 0x3000000 = 0x2000000\<close>) a byte read returns
  the stored byte at offset \<open>((a<<1) & vram_amask) + ((a>>23) & 1)\<close>, which lies in the
  buffer when the video memory has \<open>2 ^ k\<close> bytes, \<open>k\<close> from 1 to 32, and the mask is
  the size minus one. When the size is at most 16 MiB (\<open>k \<le> 24\<close>), the address that
  differs from \<open>a\<close> in bit 23 only is in window 2 as well and its offset is the next one.
\<close>

theorem vram_window2_offset:
  assumes "length (vram s) = 2 ^ k" and "vram_amask s = 2 ^ k - 1" and "0 < k" and "k \<le> 32"
    and "a AND 0x3000000 = 0x2000000"
  shows "cg14_vram_readb s a =
           Inr (ucast (vram s ! unat (spec_window2_offset (vram_amask s) a))) \<and>
         unat (spec_window2_offset (vram_amask s) a) < length (vram s) \<and>
         (k \<le> 24 \<and> a AND 0x800000 = 0 \<longrightarrow>
            (a OR 0x800000) AND 0x3000000 = 0x2000000 \<and>
            unat (spec_window2_offset (vram_amask s) (a OR 0x800000)) =
              unat (spec_window2_offset (vram_amask s) a) + 1)"
proof -
  let ?off = "spec_window2_offset (vram_amask s) a"
  have b: "unat ?off < 2 ^ k"
    unfolding assms(2) using assms(3,4) by (rule window2_offset_bound)
  have "(2::nat) ^ k \<le> 2 ^ 32" using assms(4) by (intro power_increasing) auto
  with b have t: "unat (ucast ?off :: u32) = unat ?off" by (intro trunc_u32) simp
  have r: "cg14_vram_readb s a = Inr (ucast (vram s ! unat ?off))"
    using assms(5) b t
    by (simp add: cg14_vram_readb_def Let_def ldub_p_def assms(1) spec_window2_offset_def)
  have adj: "unat (spec_window2_offset (vram_amask s) (a OR 0x800000)) = unat ?off + 1"
    if h: "k \<le> 24" "a AND 0x800000 = 0"
  proof -
    have "unat (spec_window2_offset (2 ^ k - 1) (a OR 0x800000))
            = unat (push_bit 1 (a OR 0x800000) AND mask k)
              + unat (drop_bit 23 (a OR 0x800000) AND 1)"
      unfolding spec_window2_offset_def ucast_amask [OF assms(4)]
      by (rule window2_sum [OF assms(3,4)])
    then have "unat (spec_window2_offset (2 ^ k - 1) (a OR 0x800000))
                 = unat (push_bit 1 a AND mask k) + 1"
      unfolding bit23_masked [OF h(1)] phase_set by simp
    moreover have "unat (spec_window2_offset (2 ^ k - 1) a)
            = unat (push_bit 1 a AND mask k) + unat (drop_bit 23 a AND 1)"
      unfolding spec_window2_offset_def ucast_amask [OF assms(4)]
      by (rule window2_sum [OF assms(3,4)])
    then have "unat (spec_window2_offset (2 ^ k - 1) a) = unat (push_bit 1 a AND mask k)"
      unfolding phase_clear [OF h(2)] by simp
    ultimately show ?thesis unfolding assms(2) by simp
  qed
  show ?thesis using r b adj window2_keep [OF assms(5)] by (simp add: assms(1))
qed

theorem vram_window2_offset_witness:
  "length (vram ((cg14_init 16 console32)\<lparr>vram := [0, 1, 2, 3, 4, 5, 6, 7, 8, 9, 10, 11, 12, 13, 14, 15]\<rparr>)) = 2 ^ 4 \<and>
   vram_amask ((cg14_init 16 console32)\<lparr>vram := [0, 1, 2, 3, 4, 5, 6, 7, 8, 9, 10, 11, 12, 13, 14, 15]\<rparr>) = 2 ^ 4 - 1 \<and>
   (0::nat) < 4 \<and> (4::nat) \<le> 32 \<and> (4::nat) \<le> 24 \<and>
   (0x2000003 :: u64) AND 0x3000000 = 0x2000000 \<and> (0x2000003 :: u64) AND 0x800000 = 0 \<and>
   (0x2000003 :: u64) OR 0x800000 = 0x2800003 \<and>
   unat (spec_window2_offset 15 0x2000003) = 6 \<and>
   unat (spec_window2_offset 15 0x2800003) = 7 \<and>
   cg14_vram_readb ((cg14_init 16 console32)\<lparr>vram := [0, 1, 2, 3, 4, 5, 6, 7, 8, 9, 10, 11, 12, 13, 14, 15]\<rparr>) 0x2000003 = Inr 6 \<and>
   cg14_vram_readb ((cg14_init 16 console32)\<lparr>vram := [0, 1, 2, 3, 4, 5, 6, 7, 8, 9, 10, 11, 12, 13, 14, 15]\<rparr>) 0x2800003 = Inr 7"
  using vram_window2_offset [of "(cg14_init 16 console32)\<lparr>vram := [0, 1, 2, 3, 4, 5, 6, 7, 8, 9, 10, 11, 12, 13, 14, 15]\<rparr>" 4 "0x2000003"]
    vram_window2_offset [of "(cg14_init 16 console32)\<lparr>vram := [0, 1, 2, 3, 4, 5, 6, 7, 8, 9, 10, 11, 12, 13, 14, 15]\<rparr>" 4 "0x2800003"]
  by (simp add: cg14_init_def spec_window2_offset_def)

lemma window0_offset:
  "(ucast ((a :: u64) AND ucast (m :: u32)) :: u32) = spec_window0_offset m a"
  unfolding spec_window0_offset_def by (rule bit_word_eqI) (auto simp: bit_simps)

text \<open>With a buffer of \<open>2 ^ k\<close> bytes and the mask \<open>2 ^ k - 1\<close>, a masked offset is
  always inside the buffer.\<close>

lemma window0_in_range:
  assumes "length buf = 2 ^ k" and "m = 2 ^ k - 1"
  shows "unat (spec_window0_offset m a) < length buf"
proof -
  have "spec_window0_offset m a = take_bit k (ucast a)"
    unfolding spec_window0_offset_def assms(2)
    by (simp flip: mask_eq_exp_minus_1 take_bit_eq_mask)
  then show ?thesis
    unfolding assms(1) by (simp add: unsigned_take_bit_eq)
qed

text \<open>The bound \<open>4 * width * height\<close> of the code is the product of the integers when
  that product fits into an \<open>int\<close>.\<close>

lemma visible_bytes_exact:
  assumes "0 \<le> sint w" and "0 \<le> sint h" and "4 * sint w * sint h < 2 ^ 31"
  shows "uint (4 * w * h :: c_int) = 4 * sint w * sint h"
proof -
  have "4 * w * h = (word_of_int (4 * sint w * sint h) :: c_int)"
    by simp
  then have "uint (4 * w * h) = take_bit 32 (4 * sint w * sint h)"
    by (simp only: uint_word_of_int_eq) simp
  moreover have "0 \<le> 4 * sint w * sint h" using assms(1,2) by simp
  moreover have "4 * sint w * sint h < 2 ^ 32" using assms(3) by simp
  ultimately show ?thesis by (simp add: take_bit_int_eq_self)
qed

text \<open>
  C6. A byte or word write to window 0 (\<open>addr & 0x3000000 = 0\<close>) stores the value at the
  masked offset \<open>addr & vram_amask\<close> (a word as four bytes, most significant first); it sets
  \<open>dirty\<close> when that offset is below \<open>4 * width * height\<close> and leaves \<open>dirty\<close> as it
  was otherwise. This is for bytes written inside the video memory, which a byte write
  always does when the buffer has \<open>2 ^ k\<close> bytes and the mask is \<open>2 ^ k - 1\<close>.
\<close>

theorem vram_window0_write_dirty:
  assumes "addr AND 0x3000000 = 0"
    and "off = spec_window0_offset (vram_amask s) addr"
  shows
    "(unat off < length (vram s) \<longrightarrow>
       cg14_vram_writeb s addr val =
         Inr (s\<lparr>vram := (vram s)[unat off := ucast val],
                dirty := (if off < 4 * width s * height s then 1 else dirty s)\<rparr>)) \<and>
     (unat off + 3 < length (vram s) \<longrightarrow>
       cg14_vram_writel s addr val =
         Inr (s\<lparr>vram := (vram s)[unat off := ucast (drop_bit 24 val),
                                    unat off + 1 := ucast (drop_bit 16 val),
                                    unat off + 2 := ucast (drop_bit 8 val),
                                    unat off + 3 := ucast val],
                dirty := (if off < 4 * width s * height s then 1 else dirty s)\<rparr>))"
  using assms(1) unfolding assms(2)
  by (simp add: cg14_vram_writeb_def cg14_vram_writel_def Let_def stb_p_def stl_be_p_def
        window0_offset)

theorem vram_window0_write_dirty_witness:
  "(0x0000002 :: u64) AND 0x3000000 = 0 \<and> (0x0000008 :: u64) AND 0x3000000 = 0 \<and>
   spec_window0_offset 15 0x0000002 = 2 \<and> spec_window0_offset 15 0x0000008 = 8 \<and>
   (2 :: u32) < 4 * 1 * 1 \<and> \<not> (8 :: u32) < 4 * 1 * 1 \<and>
   cg14_vram_writeb
     ((cg14_init 16 console32)\<lparr>vram := [0, 0, 0, 0, 0, 0, 0, 0, 0, 0, 0, 0, 0, 0, 0, 0], width := 1, height := 1\<rparr>)
     0x0000002 0xAA =
   Inr ((cg14_init 16 console32)\<lparr>vram := [0, 0, 0xAA, 0, 0, 0, 0, 0, 0, 0, 0, 0, 0, 0, 0, 0], width := 1, height := 1, dirty := 1\<rparr>) \<and>
   cg14_vram_writeb
     ((cg14_init 16 console32)\<lparr>vram := [0, 0, 0, 0, 0, 0, 0, 0, 0, 0, 0, 0, 0, 0, 0, 0], width := 1, height := 1\<rparr>)
     0x0000008 0xAA =
   Inr ((cg14_init 16 console32)\<lparr>vram := [0, 0, 0, 0, 0, 0, 0, 0, 0xAA, 0, 0, 0, 0, 0, 0, 0], width := 1, height := 1, dirty := 0\<rparr>) \<and>
   cg14_vram_writel
     ((cg14_init 16 console32)\<lparr>vram := [0, 0, 0, 0, 0, 0, 0, 0, 0, 0, 0, 0, 0, 0, 0, 0], width := 1, height := 1\<rparr>)
     0x0000002 0x11223344 =
   Inr ((cg14_init 16 console32)\<lparr>vram := [0, 0, 0x11, 0x22, 0x33, 0x44, 0, 0, 0, 0, 0, 0, 0, 0, 0, 0], width := 1, height := 1, dirty := 1\<rparr>) \<and>
   cg14_vram_writel
     ((cg14_init 16 console32)\<lparr>vram := [0, 0, 0, 0, 0, 0, 0, 0, 0, 0, 0, 0, 0, 0, 0, 0], width := 1, height := 1\<rparr>)
     0x0000008 0x11223344 =
   Inr ((cg14_init 16 console32)\<lparr>vram := [0, 0, 0, 0, 0, 0, 0, 0, 0x11, 0x22, 0x33, 0x44, 0, 0, 0, 0], width := 1, height := 1, dirty := 0\<rparr>)"
  using vram_window0_write_dirty [of "0x0000002" 2
          "(cg14_init 16 console32)\<lparr>vram := [0, 0, 0, 0, 0, 0, 0, 0, 0, 0, 0, 0, 0, 0, 0, 0], width := 1, height := 1\<rparr>" "0xAA"]
    vram_window0_write_dirty [of "0x0000008" 8
          "(cg14_init 16 console32)\<lparr>vram := [0, 0, 0, 0, 0, 0, 0, 0, 0, 0, 0, 0, 0, 0, 0, 0], width := 1, height := 1\<rparr>" "0xAA"]
    vram_window0_write_dirty [of "0x0000002" 2
          "(cg14_init 16 console32)\<lparr>vram := [0, 0, 0, 0, 0, 0, 0, 0, 0, 0, 0, 0, 0, 0, 0, 0], width := 1, height := 1\<rparr>" "0x11223344"]
    vram_window0_write_dirty [of "0x0000008" 8
          "(cg14_init 16 console32)\<lparr>vram := [0, 0, 0, 0, 0, 0, 0, 0, 0, 0, 0, 0, 0, 0, 0, 0], width := 1, height := 1\<rparr>" "0x11223344"]
  by (simp add: cg14_init_def spec_window0_offset_def)

section \<open>Rendering a line\<close>

text \<open>One pass through the loop body computes the pixel of the specification, provided
  the source bytes of the pixel are inside the video memory.\<close>

lemma draw_pixel_spec:
  assumes "0 \<le> p" and "p + bytes_per_pixel pixmode \<le> int (length (vram s))"
    and "pixmode = 8 \<longrightarrow> xv = ppr (ctrl s)"
  shows "draw_pixel s pixmode p xv =
           Inr (p + bytes_per_pixel pixmode, spec_xlut_value s pixmode (vram s ! nat p),
                spec_pixel s pixmode p)"
proof -
  consider "pixmode = 8" | "pixmode = 32" | "pixmode \<noteq> 8" "pixmode \<noteq> 32" by blast
  then show ?thesis
  proof cases
    case 1
    with assms show ?thesis
      by (simp add: draw_pixel_def bytes_per_pixel_def spec_xlut_value_def spec_pixel_def
            spec_colour_def vram_at_def Let_def)
  next
    case 2
    have c: "nat (3 + p) = nat (p + 3)" by (simp add: add.commute)
    from 2 assms show ?thesis
      by (simp add: draw_pixel_def bytes_per_pixel_def spec_xlut_value_def spec_pixel_def
            spec_colour_def vram_at_def Let_def c)
  next
    case 3
    with assms show ?thesis
      by (simp add: draw_pixel_def bytes_per_pixel_def spec_xlut_value_def spec_pixel_def
            spec_colour_def vram_at_def Let_def)
  qed
qed

lemma width_guard: "(int i < sint (w :: c_int)) = (i < nat (sint w))"
  by auto

text \<open>The loop from pixel \<open>i\<close> on, by induction on the number of pixels left. In 8 bit
  mode the running \<open>xlut_val\<close> stays the packing-ratio register.\<close>

lemma draw_line32_loop_run:
  assumes "n = nat (sint (width s)) - i" and "0 \<le> src"
    and "src + int (nat (sint (width s)) - i) * bytes_per_pixel pixmode \<le> int (length (vram s))"
    and "pixmode = 8 \<longrightarrow> xv = ppr (ctrl s)"
  shows "draw_line32_loop s dst pixmode is_bgr i src xv stores =
           Inr (stores @ map (\<lambda>j. (dst + 4 * int j,
                                  surface_word is_bgr
                                    (spec_pixel s pixmode (src + int (j - i) * bytes_per_pixel pixmode))))
                          [i..<nat (sint (width s))])"
  using assms
proof (induction n arbitrary: i src xv stores)
  case 0
  then have "\<not> i < nat (sint (width s))" by simp
  then show ?case by (subst draw_line32_loop.simps) (simp add: width_guard)
next
  case (Suc n)
  let ?W = "nat (sint (width s))" and ?b = "bytes_per_pixel pixmode"
  from Suc.prems(1) have lt: "i < ?W" and n: "n = ?W - Suc i" by simp_all
  have bpos: "0 < ?b" by (simp add: bytes_per_pixel_def)
  have split: "int (?W - i) * ?b = ?b + int (?W - Suc i) * ?b"
    using lt by (simp add: Suc_diff_Suc algebra_simps)
  have "0 \<le> int (?W - Suc i) * ?b" using bpos by simp
  with Suc.prems(3) split have fit: "src + ?b \<le> int (length (vram s))" by linarith
  have px: "draw_pixel s pixmode src xv =
              Inr (src + ?b, spec_xlut_value s pixmode (vram s ! nat src), spec_pixel s pixmode src)"
    using Suc.prems(2) fit Suc.prems(4) by (rule draw_pixel_spec)
  have inv: "pixmode = 8 \<longrightarrow> spec_xlut_value s pixmode (vram s ! nat src) = ppr (ctrl s)"
    by (simp add: spec_xlut_value_def)
  have rest: "draw_line32_loop s dst pixmode is_bgr (Suc i) (src + ?b)
                (spec_xlut_value s pixmode (vram s ! nat src))
                (stores @ [(dst + 4 * int i, surface_word is_bgr (spec_pixel s pixmode src))]) =
              Inr ((stores @ [(dst + 4 * int i, surface_word is_bgr (spec_pixel s pixmode src))]) @
                   map (\<lambda>j. (dst + 4 * int j,
                              surface_word is_bgr
                                (spec_pixel s pixmode (src + ?b + int (j - Suc i) * ?b))))
                       [Suc i..<?W])"
  proof (rule Suc.IH [OF n _ _ inv])
    show "0 \<le> src + ?b" using Suc.prems(2) bpos by simp
    show "src + ?b + int (?W - Suc i) * ?b \<le> int (length (vram s))"
      using Suc.prems(3) split by simp
  qed
  have shift: "map (\<lambda>j. (dst + 4 * int j,
                              surface_word is_bgr
                                (spec_pixel s pixmode (src + ?b + int (j - Suc i) * ?b))))
                       [Suc i..<?W]
             = map (\<lambda>j. (dst + 4 * int j,
                              surface_word is_bgr
                                (spec_pixel s pixmode (src + int (j - i) * ?b))))
                       [Suc i..<?W]"
  proof (rule map_cong [OF refl])
    fix j assume "j \<in> set [Suc i..<?W]"
    then have "Suc i \<le> j" by simp
    then have "int (j - i) = 1 + int (j - Suc i)" by simp
    then have "src + ?b + int (j - Suc i) * ?b = src + int (j - i) * ?b"
      by (simp add: algebra_simps)
    then show "(dst + 4 * int j, surface_word is_bgr (spec_pixel s pixmode (src + ?b + int (j - Suc i) * ?b)))
             = (dst + 4 * int j, surface_word is_bgr (spec_pixel s pixmode (src + int (j - i) * ?b)))"
      by (simp only:)
  qed
  have "draw_line32_loop s dst pixmode is_bgr i src xv stores =
          draw_line32_loop s dst pixmode is_bgr (Suc i) (src + ?b)
                (spec_xlut_value s pixmode (vram s ! nat src))
                (stores @ [(dst + 4 * int i, surface_word is_bgr (spec_pixel s pixmode src))])"
    using lt by (subst draw_line32_loop.simps) (simp add: width_guard px)
  then show ?case
    unfolding rest shift using lt by (simp add: upt_conv_Cons)
qed

text \<open>A whole line: one store per pixel, in order, when the source bytes of the line are
  inside the video memory.\<close>

lemma draw_line32_run:
  assumes "0 \<le> src"
    and "src + int (nat (sint (width s))) * bytes_per_pixel pixmode \<le> int (length (vram s))"
  shows "cg14_draw_line32 s dst src pixmode is_bgr stores =
           Inr (stores @ map (\<lambda>i. (dst + 4 * int i,
                                  surface_word is_bgr
                                    (spec_pixel s pixmode (src + int i * bytes_per_pixel pixmode))))
                          [0..<nat (sint (width s))])"
  unfolding cg14_draw_line32_def
  using draw_line32_loop_run [of "nat (sint (width s))" s 0 src pixmode "ppr (ctrl s)" dst is_bgr stores]
    assms by simp

lemma bgr_to_rgb_bytes:
  "colour_byte (bgr_to_rgb c) 0 = colour_byte c 2"
  "colour_byte (bgr_to_rgb c) 1 = colour_byte c 1"
  "colour_byte (bgr_to_rgb c) 2 = colour_byte c 0"
  "colour_byte (bgr_to_rgb c) 3 = 0"
proof -
  have m: "(0xFF :: u32) = mask 8" "(0xFF00 :: u32) = push_bit 8 (mask 8)"
    "(0xFF0000 :: u32) = push_bit 16 (mask 8)"
    by (simp_all add: mask_eq_exp_minus_1)
  show "colour_byte (bgr_to_rgb c) 0 = colour_byte c 2"
    unfolding colour_byte_def bgr_to_rgb_def m
    by (rule bit_word_eqI) (auto simp: bit_simps)
  show "colour_byte (bgr_to_rgb c) 1 = colour_byte c 1"
    unfolding colour_byte_def bgr_to_rgb_def m
    by (rule bit_word_eqI) (auto simp: bit_simps)
  show "colour_byte (bgr_to_rgb c) 2 = colour_byte c 0"
    unfolding colour_byte_def bgr_to_rgb_def m
    by (rule bit_word_eqI) (auto simp: bit_simps)
  show "colour_byte (bgr_to_rgb c) 3 = 0"
    unfolding colour_byte_def bgr_to_rgb_def m
    by (rule bit_word_eqI) (auto simp: bit_simps)
qed

text \<open>
  C1. When the source bytes of a line are inside the video memory, \<open>cg14_draw_line32\<close>
  returns, makes one store per pixel, and the store of pixel \<open>i\<close> is the surface form of
  the colour the palette selection rule gives: with the XLUT value the packing-ratio
  register in 8 bit mode and \<open>xlut[first byte]\<close> otherwise, the colour is
  \<open>(blue<<16)|(green<<8)|red\<close> for 0, \<open>clut1[first byte]\<close> for 0x40 and 0 for any other
  value.
\<close>

theorem draw_line32_pixel_colour:
  assumes "0 \<le> src"
    and "src + int (nat (sint (width s))) * bytes_per_pixel pixmode \<le> int (length (vram s))"
    and "i < nat (sint (width s))"
  shows "case cg14_draw_line32 s dst src pixmode is_bgr stores of
           Inl e \<Rightarrow> False
         | Inr stores' \<Rightarrow>
             length stores' = length stores + nat (sint (width s)) \<and>
             stores' ! (length stores + i) =
               (dst + 4 * int i,
                surface_word is_bgr (spec_pixel s pixmode (src + int i * bytes_per_pixel pixmode)))"
  using assms(3) by (simp add: draw_line32_run [OF assms(1,2)] nth_append)

theorem draw_line32_pixel_colour_witness:
  "(0::int) \<le> 0 \<and> (0::nat) < nat (sint (1 :: c_int)) \<and>
   0 + int (nat (sint (1 :: c_int))) * bytes_per_pixel 8 \<le> int (length [0x80 :: u8]) \<and>
   (case cg14_draw_line32
           ((cg14_init 1 console32)\<lparr>width := 1, vram := [0x80], ctrl := \<lparr>mcr = 0, ppr = 0\<rparr>\<rparr>)
           0 0 8 1 [] of
      Inl e \<Rightarrow> False
    | Inr stores' \<Rightarrow> length stores' = 1 \<and> stores' ! 0 = (0, 0x808080)) \<and>
   (case cg14_draw_line32
           ((cg14_init 1 console32)\<lparr>width := 1, vram := [5], ctrl := \<lparr>mcr = 0, ppr = 0x40\<rparr>,
              clut1 := (\<lambda>_. 0)(5 := 0x123456)\<rparr>)
           0 0 8 1 [] of
      Inl e \<Rightarrow> False
    | Inr stores' \<Rightarrow> length stores' = 1 \<and> stores' ! 0 = (0, 0x123456)) \<and>
   (case cg14_draw_line32
           ((cg14_init 1 console32)\<lparr>width := 1, vram := [0x80], ctrl := \<lparr>mcr = 0, ppr = 0x01\<rparr>\<rparr>)
           0 0 8 1 [] of
      Inl e \<Rightarrow> False
    | Inr stores' \<Rightarrow> length stores' = 1 \<and> stores' ! 0 = (0, 0))"
  using
    draw_line32_pixel_colour [where src = 0 and pixmode = 8 and i = 0 and dst = 0
      and is_bgr = 1 and stores = "[]" and s =
      "(cg14_init 1 console32)\<lparr>width := 1, vram := [0x80], ctrl := \<lparr>mcr = 0, ppr = 0\<rparr>\<rparr>"]
    draw_line32_pixel_colour [where src = 0 and pixmode = 8 and i = 0 and dst = 0
      and is_bgr = 1 and stores = "[]" and s =
      "(cg14_init 1 console32)\<lparr>width := 1, vram := [5], ctrl := \<lparr>mcr = 0, ppr = 0x40\<rparr>,
              clut1 := (\<lambda>_. 0)(5 := 0x123456)\<rparr>"]
    draw_line32_pixel_colour [where src = 0 and pixmode = 8 and i = 0 and dst = 0
      and is_bgr = 1 and stores = "[]" and s =
      "(cg14_init 1 console32)\<lparr>width := 1, vram := [0x80], ctrl := \<lparr>mcr = 0, ppr = 0x01\<rparr>\<rparr>"]
  by (auto simp: bytes_per_pixel_def spec_pixel_def spec_colour_def spec_xlut_value_def
        surface_word_def Let_def split: sum.splits)

text \<open>
  C9. The word emitted for a pixel with composed colour \<open>abgr\<close> is \<open>abgr & 0xFFFFFF\<close> on
  a blue-first surface; otherwise its bytes are those of \<open>abgr\<close> with red (byte 0) and
  blue (byte 2) exchanged, green (byte 1) in place and the high byte 0.
\<close>

theorem surface_channel_order:
  assumes "0 \<le> src"
    and "src + int (nat (sint (width s))) * bytes_per_pixel pixmode \<le> int (length (vram s))"
    and "i < nat (sint (width s))"
  shows "case cg14_draw_line32 s dst src pixmode is_bgr stores of
           Inl e \<Rightarrow> False
         | Inr stores' \<Rightarrow>
             (let abgr = spec_pixel s pixmode (src + int i * bytes_per_pixel pixmode);
                  emitted = snd (stores' ! (length stores + i))
              in if is_bgr \<noteq> 0 then emitted = abgr AND 0xFFFFFF
                 else colour_byte emitted 0 = colour_byte abgr 2 \<and>
                      colour_byte emitted 1 = colour_byte abgr 1 \<and>
                      colour_byte emitted 2 = colour_byte abgr 0 \<and>
                      colour_byte emitted 3 = 0)"
  using assms(3)
  by (simp add: draw_line32_run [OF assms(1,2)] nth_append surface_word_def
        bgr_to_rgb_bytes bgr_to_rgb_bytes(2) [unfolded One_nat_def] Let_def)

theorem surface_channel_order_witness:
  "(0::int) \<le> 0 \<and> (0::nat) < nat (sint (1 :: c_int)) \<and>
   0 + int (nat (sint (1 :: c_int))) * bytes_per_pixel 32 \<le> int (length [0, 0x33, 0x22, 0x11 :: u8]) \<and>
   spec_pixel ((cg14_init 4 console32)\<lparr>width := 1, vram := [0, 0x33, 0x22, 0x11]\<rparr>) 32 0 = 0x332211 \<and>
   (case cg14_draw_line32
           ((cg14_init 4 console32)\<lparr>width := 1, vram := [0, 0x33, 0x22, 0x11]\<rparr>) 0 0 32 0 [] of
      Inl e \<Rightarrow> False
    | Inr stores' \<Rightarrow>
        stores' = [(0, 0x112233)] \<and>
        colour_byte (snd (stores' ! 0)) 0 = 0x33 \<and> colour_byte (snd (stores' ! 0)) 1 = 0x22 \<and>
        colour_byte (snd (stores' ! 0)) 2 = 0x11 \<and> colour_byte (snd (stores' ! 0)) 3 = 0) \<and>
   (case cg14_draw_line32
           ((cg14_init 4 console32)\<lparr>width := 1, vram := [0, 0x33, 0x22, 0x11]\<rparr>) 0 0 32 1 [] of
      Inl e \<Rightarrow> False
    | Inr stores' \<Rightarrow> stores' = [(0, 0x332211)])"
  using
    surface_channel_order [where src = 0 and pixmode = 32 and i = 0 and dst = 0
      and is_bgr = 0 and stores = "[]" and s =
      "(cg14_init 4 console32)\<lparr>width := 1, vram := [0, 0x33, 0x22, 0x11]\<rparr>"]
    surface_channel_order [where src = 0 and pixmode = 32 and i = 0 and dst = 0
      and is_bgr = 1 and stores = "[]" and s =
      "(cg14_init 4 console32)\<lparr>width := 1, vram := [0, 0x33, 0x22, 0x11]\<rparr>"]
    draw_line32_run [where src = 0 and pixmode = 32 and dst = 0
      and is_bgr = 0 and stores = "[]" and s =
      "(cg14_init 4 console32)\<lparr>width := 1, vram := [0, 0x33, 0x22, 0x11]\<rparr>"]
    draw_line32_run [where src = 0 and pixmode = 32 and dst = 0
      and is_bgr = 1 and stores = "[]" and s =
      "(cg14_init 4 console32)\<lparr>width := 1, vram := [0, 0x33, 0x22, 0x11]\<rparr>"]
  by (auto simp: bytes_per_pixel_def spec_pixel_def spec_colour_def spec_xlut_value_def
        surface_word_def bgr_to_rgb_def colour_byte_def cg14_init_def Let_def split: sum.splits)

section \<open>The refresh\<close>

lemma update_size_keeps:
  "ds_stores (ds (update_size s)) = ds_stores (ds s)"
  "ds_updates (ds (update_size s)) = ds_updates (ds s)"
  "ds_bits_per_pixel (ds (update_size s)) = ds_bits_per_pixel (ds s)"
  "vram (update_size s) = vram s"
  "size_changed (update_size s) = 0"
  "dirty s \<noteq> 0 \<Longrightarrow> dirty (update_size s) \<noteq> 0"
  by (simp_all add: update_size_def Let_def qemu_console_resize_def)

lemma update_size_idle: "size_changed s = 0 \<Longrightarrow> update_size s = s"
  by (simp add: update_size_def)

text \<open>The fields of the example device with a geometry pending.\<close>

lemma pending_geometry_fields:
  "size_changed pending_geometry_16bpp = 1"
  "dirty pending_geometry_16bpp = 0"
  "width pending_geometry_16bpp = 640"
  "height pending_geometry_16bpp = 480"
  "hblank_start (timing pending_geometry_16bpp) = 0x100"
  "hblank_clear (timing pending_geometry_16bpp) = 0"
  "vblank_start (timing pending_geometry_16bpp) = 0x300"
  "vblank_clear (timing pending_geometry_16bpp) = 0"
  "ds_bits_per_pixel (ds pending_geometry_16bpp) = 16"
  "ds_resizes (ds pending_geometry_16bpp) = [(640, 480)]"
  "ds_stores (ds pending_geometry_16bpp) = []"
  "ds_updates (ds pending_geometry_16bpp) = []"
  by (simp_all add: pending_geometry_16bpp_def cg14_init_def console32_def
        cg14_reg_writew_def qemu_console_resize_def Let_def)

lemma geometry_1024_768: "(0 :: c_int) <s 1024" "(0 :: c_int) <s 768"
  by (simp_all add: word_sless_alt)

text \<open>
  C3, as amended. When the surface reports a depth other than 32 bits, the refresh draws
  nothing: no store reaches the surface data, no region is presented, the video memory is
  as before, and a \<open>dirty\<close> flag that was set is still set. The geometry step before the
  depth test runs all the same. With \<open>size_changed\<close> clear the state is returned as it
  is. With \<open>size_changed\<close> set the flag is cleared, and when the timing registers give a
  geometry \<open>nw\<close> x \<open>nh\<close> that is positive and differs from the current one, width and
  height become \<open>nw\<close> and \<open>nh\<close>, the host is asked to resize its surface to them and
  \<open>dirty\<close> is set to 1.
\<close>

theorem update_display_refuses_depth:
  fixes nw nh :: c_int
  assumes "ds_bits_per_pixel (ds s) \<noteq> 32"
    and "nw = 4 * (ucast (hblank_start (timing s)) - ucast (hblank_clear (timing s)))"
    and "nh = ucast (vblank_start (timing s)) - ucast (vblank_clear (timing s))"
  shows "cg14_update_display s = Inr (update_size s) \<and>
         update_size s =
           (if size_changed s = 0 then s
            else if (nw \<noteq> width s \<or> nh \<noteq> height s) \<and> 0 <s nw \<and> 0 <s nh
            then s\<lparr>ds := (ds s)\<lparr>ds_resizes := ds_resizes (ds s) @ [(nw, nh)]\<rparr>,
                   width := nw, height := nh, dirty := 1, size_changed := 0\<rparr>
            else s\<lparr>size_changed := 0\<rparr>) \<and>
         ds_stores (ds (update_size s)) = ds_stores (ds s) \<and>
         ds_updates (ds (update_size s)) = ds_updates (ds s) \<and>
         vram (update_size s) = vram s \<and>
         (dirty s \<noteq> 0 \<longrightarrow> dirty (update_size s) \<noteq> 0)"
proof -
  have a: "cg14_update_display s = Inr (update_size s)"
    using assms(1) by (simp add: cg14_update_display_def Let_def update_size_keeps)
  have b: "update_size s =
           (if size_changed s = 0 then s
            else if (nw \<noteq> width s \<or> nh \<noteq> height s) \<and> 0 <s nw \<and> 0 <s nh
            then s\<lparr>ds := (ds s)\<lparr>ds_resizes := ds_resizes (ds s) @ [(nw, nh)]\<rparr>,
                   width := nw, height := nh, dirty := 1, size_changed := 0\<rparr>
            else s\<lparr>size_changed := 0\<rparr>)"
    unfolding assms(2,3) by (auto simp: update_size_def Let_def qemu_console_resize_def)
  have c: "dirty s \<noteq> 0 \<longrightarrow> dirty (update_size s) \<noteq> 0"
    by (simp add: update_size_keeps)
  show ?thesis
    by (intro conjI) (rule a, rule b, rule update_size_keeps(1), rule update_size_keeps(2),
        rule update_size_keeps(4), rule c)
qed

theorem update_display_refuses_depth_witness:
  "ds_bits_per_pixel (ds (cg14_invalidate_display (cg14_init 16 (console32\<lparr>ds_bits_per_pixel := 16\<rparr>)))) \<noteq> 32 \<and>
   dirty (cg14_invalidate_display (cg14_init 16 (console32\<lparr>ds_bits_per_pixel := 16\<rparr>))) = 1 \<and>
   cg14_update_display (cg14_invalidate_display (cg14_init 16 (console32\<lparr>ds_bits_per_pixel := 16\<rparr>))) =
     Inr (cg14_invalidate_display (cg14_init 16 (console32\<lparr>ds_bits_per_pixel := 16\<rparr>))) \<and>
   ds_bits_per_pixel (ds pending_geometry_16bpp) \<noteq> 32 \<and>
   (1024 :: c_int) = 4 * (ucast (hblank_start (timing pending_geometry_16bpp))
                          - ucast (hblank_clear (timing pending_geometry_16bpp))) \<and>
   (768 :: c_int) = ucast (vblank_start (timing pending_geometry_16bpp))
                    - ucast (vblank_clear (timing pending_geometry_16bpp)) \<and>
   cg14_update_display pending_geometry_16bpp =
     Inr (pending_geometry_16bpp
            \<lparr>ds := (ds pending_geometry_16bpp)\<lparr>ds_resizes := [(640, 480), (1024, 768)]\<rparr>,
              width := 1024, height := 768, dirty := 1, size_changed := 0\<rparr>) \<and>
   ds_stores (ds pending_geometry_16bpp) = [] \<and> ds_updates (ds pending_geometry_16bpp) = []"
proof -
  have idle: "size_changed (cg14_invalidate_display (cg14_init 16 (console32\<lparr>ds_bits_per_pixel := 16\<rparr>))) = 0"
    "ds_bits_per_pixel (ds (cg14_invalidate_display (cg14_init 16 (console32\<lparr>ds_bits_per_pixel := 16\<rparr>)))) = 16"
    "dirty (cg14_invalidate_display (cg14_init 16 (console32\<lparr>ds_bits_per_pixel := 16\<rparr>))) = 1"
    by (simp_all add: cg14_invalidate_display_def cg14_init_def console32_def
          qemu_console_resize_def)
  show ?thesis
    using
      update_display_refuses_depth
        [of "cg14_invalidate_display (cg14_init 16 (console32\<lparr>ds_bits_per_pixel := 16\<rparr>))"
            "4 * (ucast (hblank_start (timing (cg14_invalidate_display (cg14_init 16 (console32\<lparr>ds_bits_per_pixel := 16\<rparr>)))))
                  - ucast (hblank_clear (timing (cg14_invalidate_display (cg14_init 16 (console32\<lparr>ds_bits_per_pixel := 16\<rparr>))))))"
            "ucast (vblank_start (timing (cg14_invalidate_display (cg14_init 16 (console32\<lparr>ds_bits_per_pixel := 16\<rparr>)))))
                  - ucast (vblank_clear (timing (cg14_invalidate_display (cg14_init 16 (console32\<lparr>ds_bits_per_pixel := 16\<rparr>)))))"]
      update_display_refuses_depth [of pending_geometry_16bpp 1024 768]
    by (simp add: idle pending_geometry_fields geometry_1024_768)
qed

text \<open>
  C3 as stated fails: on a 16 bit surface with a geometry pending, the refused refresh asks
  the host to resize its surface to 1024 x 768, adopts that geometry, clears
  \<open>size_changed\<close> and takes \<open>dirty\<close> from 0 to 1.
\<close>

theorem update_display_resizes_before_depth_test:
  "ds_bits_per_pixel (ds pending_geometry_16bpp) = 16 \<and>
   size_changed pending_geometry_16bpp = 1 \<and> dirty pending_geometry_16bpp = 0 \<and>
   width pending_geometry_16bpp = 640 \<and> height pending_geometry_16bpp = 480 \<and>
   ds_resizes (ds pending_geometry_16bpp) = [(640, 480)] \<and>
   cg14_update_display pending_geometry_16bpp =
     Inr (pending_geometry_16bpp
            \<lparr>ds := (ds pending_geometry_16bpp)\<lparr>ds_resizes := [(640, 480), (1024, 768)]\<rparr>,
              width := 1024, height := 768, dirty := 1, size_changed := 0\<rparr>) \<and>
   cg14_update_display pending_geometry_16bpp \<noteq> Inr pending_geometry_16bpp"
proof -
  have r: "cg14_update_display pending_geometry_16bpp =
     Inr (pending_geometry_16bpp
            \<lparr>ds := (ds pending_geometry_16bpp)\<lparr>ds_resizes := [(640, 480), (1024, 768)]\<rparr>,
              width := 1024, height := 768, dirty := 1, size_changed := 0\<rparr>)"
    by (simp add: cg14_update_display_def update_size_def qemu_console_resize_def Let_def
          pending_geometry_fields geometry_1024_768)
  have "width (pending_geometry_16bpp
            \<lparr>ds := (ds pending_geometry_16bpp)\<lparr>ds_resizes := [(640, 480), (1024, 768)]\<rparr>,
              width := 1024, height := 768, dirty := 1, size_changed := 0\<rparr>)
          \<noteq> width pending_geometry_16bpp"
    by (simp add: pending_geometry_fields)
  then have "pending_geometry_16bpp
            \<lparr>ds := (ds pending_geometry_16bpp)\<lparr>ds_resizes := [(640, 480), (1024, 768)]\<rparr>,
              width := 1024, height := 768, dirty := 1, size_changed := 0\<rparr>
          \<noteq> pending_geometry_16bpp"
    by (metis (no_types))
  then have n: "cg14_update_display pending_geometry_16bpp \<noteq> Inr pending_geometry_16bpp"
    unfolding r by simp
  show ?thesis
    by (intro conjI) (rule pending_geometry_fields(9), rule pending_geometry_fields(1),
        rule pending_geometry_fields(2), rule pending_geometry_fields(3),
        rule pending_geometry_fields(4), rule pending_geometry_fields(10), rule r, rule n)
qed

text \<open>The retry: once the surface reports 32 bits, the state left by a refused refresh
  with \<open>dirty\<close> set and a visible area goes on to draw the frame.\<close>

lemma update_display_retry:
  assumes "ds_bits_per_pixel (ds s) \<noteq> 32" and "dirty s \<noteq> 0"
    and "width (update_size s) \<noteq> 0" and "height (update_size s) \<noteq> 0"
    and "s' = (update_size s)\<lparr>ds := (ds (update_size s))\<lparr>ds_bits_per_pixel := 32\<rparr>\<rparr>"
  shows "cg14_update_display s' = render_frame s'"
proof -
  have "size_changed s' = 0" unfolding assms(5) by (simp add: update_size_keeps)
  then have "update_size s' = s'" by (rule update_size_idle)
  moreover have "dirty s' \<noteq> 0" unfolding assms(5) using assms(2) by (simp add: update_size_keeps)
  moreover have "width s' \<noteq> 0" "height s' \<noteq> 0" unfolding assms(5) using assms(3,4) by simp_all
  moreover have "ds_bits_per_pixel (ds s') = 32" unfolding assms(5) by simp
  ultimately show ?thesis by (simp add: cg14_update_display_def)
qed

text \<open>A refresh on a 32 bit surface, run on a device of two lines of two pixels in 8 bit
  mode: four stores, line by line, the region presented and \<open>dirty\<close> cleared.\<close>

lemma refresh_example:
  "cg14_update_display
     ((cg14_init 4 (console32\<lparr>ds_linesize := 8\<rparr>))
        \<lparr>width := 2, height := 2, dirty := 1, vram := [1, 2, 3, 4]\<rparr>) =
   Inr ((cg14_init 4 (console32\<lparr>ds_linesize := 8\<rparr>))
        \<lparr>width := 2, height := 2, dirty := 0, vram := [1, 2, 3, 4],
          ds := (console32\<lparr>ds_linesize := 8\<rparr>)
                  \<lparr>ds_resizes := [(640, 480)],
                    ds_stores := [(0, 0x010101), (4, 0x020202), (8, 0x030303), (12, 0x040404)],
                    ds_updates := [(0, 0, 2, 2)]\<rparr>\<rparr>)"
  by (simp add: cg14_update_display_def update_size_def render_frame_def draw_lines.simps
        cg14_draw_line32_def draw_line32_loop.simps draw_pixel_def vram_at_def surface_word_def
        bgr_to_rgb_def dpy_update_def qemu_console_resize_def cg14_init_def console32_def
        MCR_PIXMODE_MASK_def MCR_PIXMODE_32_def MCR_PIXMODE_16_def Let_def)

end
